theory Spec2Isabelle
  imports Complex_Main
begin

section \<open>The News Agent API: \<^verbatim>\<open>backend/main.py\<close>\<close>

text \<open>
  The repository is one FastAPI module with one handler, \<^verbatim>\<open>fetch_news\<close>. The handler
  is embedded as a function from the process configuration, the outside world (the
  two providers and the library functions whose code is not part of the repository)
  and the request, to the HTTP outcome together with the list of outbound calls made.

  Python strings are modelled as \<^typ>\<open>string\<close>; the model is exact for ASCII text.
  Output on stdout (the two \<^verbatim>\<open>print\<close> calls) is not modelled.
\<close>

subsection \<open>JSON values, as \<^verbatim>\<open>response.json()\<close> and \<^verbatim>\<open>json.loads\<close> produce them\<close>

text \<open>
  A JSON object is a Python \<^verbatim>\<open>dict\<close>: an association list read with \<^const>\<open>map_of\<close>.
\<close>

datatype json =
    JNull
  | JBool bool
  | JInt int
  | JFloat real
  | JStr string
  | JArr "json list"
  | JObj "(string \<times> json) list"

subsection \<open>Exceptions\<close>

text \<open>
  Every exception of the model is an instance of Python's \<^verbatim>\<open>Exception\<close>, as
  \<^verbatim>\<open>fastapi.HTTPException\<close> is. An \<open>HTTPException\<close> carries its status code and its
  detail (any JSON-like value); any other exception carries its class and its
  arguments. \<open>OtherError\<close> stands for the classes that are subclasses of none of the
  named ones (a network failure of the HTTP client, for example).
\<close>

datatype exn_class =
    ValueError
  | JSONDecodeError
  | AttributeError
  | TypeError
  | KeyError
  | ValidationError
  | OtherError string

datatype exn =
    HTTPException nat json
  | PyExn exn_class string

text \<open>Sequencing of computations that may raise.\<close>

definition ebind :: "exn + 'a \<Rightarrow> ('a \<Rightarrow> exn + 'b) \<Rightarrow> exn + 'b" where
  "ebind m f = (case m of Inl e \<Rightarrow> Inl e | Inr x \<Rightarrow> f x)"

subsection \<open>The data model (lines 31--45)\<close>

record NewsArticle =
  title :: string
  source :: string
  snippet :: string
  date :: string
  url :: "string option"

record NewsResponse =
  articles :: "NewsArticle list"
  summary :: string
  headline :: string

record NewsRequest =
  date :: string
  topics :: "string list"

subsection \<open>Configuration and the outside world\<close>

text \<open>
  Lines 24 and 26 read the two keys with \<^verbatim>\<open>os.getenv\<close>, which returns \<^verbatim>\<open>None\<close> for
  an absent variable and never raises. \<open>module_init\<close> is that module-level code, run
  once when the process starts, on the environment left by \<^verbatim>\<open>load_dotenv()\<close>.
\<close>

record config =
  SERP_API_KEY :: "string option"
  GOOGLE_API_KEY :: "string option"

definition module_init :: "(string \<rightharpoonup> string) \<Rightarrow> config" where
  "module_init environ =
     \<lparr>SERP_API_KEY = environ ''SERP_API_KEY'', GOOGLE_API_KEY = environ ''GOOGLE_API_KEY''\<rparr>"

text \<open>Python truthiness of an optional string: \<^verbatim>\<open>None\<close> and \<^verbatim>\<open>""\<close> are false.\<close>

definition truthy :: "string option \<Rightarrow> bool" where
  "truthy k = (case k of None \<Rightarrow> False | Some s \<Rightarrow> s \<noteq> [])"

text \<open>
  The parts whose code is outside the repository are parameters:
  \<^item> \<open>client_get url params\<close>: the search provider behind \<^verbatim>\<open>httpx\<close>. The call raises
    (\<open>Inl\<close>) or returns a response, given by the outcome of its \<^verbatim>\<open>.json()\<close>;
  \<^item> \<open>generate_content model prompt\<close>: the model provider. The call raises or returns
    a response, given by the outcome of reading its \<^verbatim>\<open>.text\<close>;
  \<^item> \<open>json_loads\<close>: the standard library's \<^verbatim>\<open>json.loads\<close>;
  \<^item> \<open>exn_str\<close>: Python's \<^verbatim>\<open>str(e)\<close> of an exception, whose text depends on the
    versions of the interpreter and of the libraries.
\<close>

record world =
  client_get :: "string \<Rightarrow> (string \<times> json) list \<Rightarrow> exn + (exn + json)"
  generate_content :: "string \<Rightarrow> string \<Rightarrow> exn + (exn + string)"
  json_loads :: "string \<Rightarrow> exn + json"
  exn_str :: "exn \<Rightarrow> string"

text \<open>The outbound calls of one invocation, in the order they are made.\<close>

datatype call =
    SearchCall string "(string \<times> json) list"
  | ModelCall string string

subsection \<open>\<^verbatim>\<open>datetime.strptime(s, "%Y-%m-%d")\<close>\<close>

text \<open>
  CPython's \<^verbatim>\<open>_strptime\<close> turns the format into the regular expression
  \<^verbatim>\<open>(?P<Y>\d\d\d\d)-(?P<m>1[0-2]|0[1-9]|[1-9])-(?P<d>3[0-1]|[1-2]\d|0[1-9]|[1-9]| [1-9])\<close>,
  matches it at the start of the string (first alternative first, backtracking),
  raises \<^verbatim>\<open>ValueError\<close> when there is no match or when text remains after the match,
  and builds the date, which raises \<^verbatim>\<open>ValueError\<close> for year 0 and for a day that the
  month does not have. Each matcher returns its matches in the order the regular
  expression engine tries them, each with the rest of the input.
\<close>

definition digit :: "char \<Rightarrow> bool" where
  "digit c = (c \<in> set ''0123456789'')"

definition digit19 :: "char \<Rightarrow> bool" where
  "digit19 c = (c \<in> set ''123456789'')"

definition digit_val :: "char \<Rightarrow> nat" where
  "digit_val c = of_char c - 48"

definition match_lit :: "char \<Rightarrow> string \<Rightarrow> string list" where
  "match_lit c s = (case s of [] \<Rightarrow> [] | x # r \<Rightarrow> if x = c then [r] else [])"

definition match_Y :: "string \<Rightarrow> (nat \<times> string) list" where
  "match_Y s =
     (case s of
        a # b # c # d # r \<Rightarrow>
          if digit a \<and> digit b \<and> digit c \<and> digit d
          then [(1000 * digit_val a + 100 * digit_val b + 10 * digit_val c + digit_val d, r)]
          else []
      | _ \<Rightarrow> [])"

definition match_two :: "(char \<Rightarrow> bool) \<Rightarrow> (char \<Rightarrow> bool) \<Rightarrow> string \<Rightarrow> (nat \<times> string) list" where
  "match_two p q s =
     (case s of
        a # b # r \<Rightarrow>
          if p a \<and> q b then [((if digit a then 10 * digit_val a else 0) + digit_val b, r)] else []
      | _ \<Rightarrow> [])"

definition match_one :: "string \<Rightarrow> (nat \<times> string) list" where
  "match_one s = (case s of [] \<Rightarrow> [] | a # r \<Rightarrow> if digit19 a then [(digit_val a, r)] else [])"

definition match_m :: "string \<Rightarrow> (nat \<times> string) list" where
  "match_m s =
     match_two (\<lambda>a. a = CHR ''1'') (\<lambda>b. b \<in> set ''012'') s
     @ match_two (\<lambda>a. a = CHR ''0'') digit19 s
     @ match_one s"

definition match_d :: "string \<Rightarrow> (nat \<times> string) list" where
  "match_d s =
     match_two (\<lambda>a. a = CHR ''3'') (\<lambda>b. b \<in> set ''01'') s
     @ match_two (\<lambda>a. a \<in> set ''12'') digit s
     @ match_two (\<lambda>a. a = CHR ''0'') digit19 s
     @ match_one s
     @ match_two (\<lambda>a. a = CHR '' '') digit19 s"

definition regex_ymd :: "string \<Rightarrow> (nat \<times> nat \<times> nat \<times> string) list" where
  "regex_ymd s =
     concat (map (\<lambda>(y, r0).
       concat (map (\<lambda>r1.
         concat (map (\<lambda>(m, r2).
           concat (map (\<lambda>r3.
             map (\<lambda>(d, r4). (y, m, d, r4)) (match_d r3))
           (match_lit CHR ''-'' r2)))
         (match_m r1)))
       (match_lit CHR ''-'' r0)))
     (match_Y s))"

definition is_leap :: "nat \<Rightarrow> bool" where
  "is_leap y = (y mod 4 = 0 \<and> (if y mod 100 = 0 then y mod 400 = 0 else True))"

definition days_in_month :: "nat \<Rightarrow> nat \<Rightarrow> nat" where
  "days_in_month y m =
     (if m = 2 then (if is_leap y then 29 else 28)
      else if m \<in> set [4, 6, 9, 11] then 30 else 31)"

definition strptime_ymd :: "string \<Rightarrow> exn + (nat \<times> nat \<times> nat)" where
  "strptime_ymd s =
     (case regex_ymd s of
        [] \<Rightarrow> Inl (PyExn ValueError ''does not match format'')
      | (y, m, d, r) # _ \<Rightarrow>
          if r \<noteq> [] then Inl (PyExn ValueError ''unconverted data remains'')
          else if y < 1 then Inl (PyExn ValueError ''year is out of range'')
          else if days_in_month y m < d then Inl (PyExn ValueError ''day is out of range for month'')
          else Inr (y, m, d))"

subsection \<open>Python operations on JSON values\<close>

text \<open>\<^verbatim>\<open>sep.join(xs)\<close>.\<close>

fun join :: "string \<Rightarrow> string list \<Rightarrow> string" where
  "join sep [] = []"
| "join sep [x] = x"
| "join sep (x # y # ys) = x @ sep @ join sep (y # ys)"

text \<open>\<^verbatim>\<open>k in s\<close> for two strings: \<open>k\<close> occurs in \<open>s\<close> as a contiguous block.\<close>

fun substring :: "string \<Rightarrow> string \<Rightarrow> bool" where
  "substring k [] = (k = [])"
| "substring k (c # s) = (if take (length k) (c # s) = k then True else substring k s)"

text \<open>
  \<^verbatim>\<open>k in data\<close>: a key test on a dict, a membership test on a list, a substring test
  on a string, and \<^verbatim>\<open>TypeError\<close> on \<^verbatim>\<open>None\<close>, a boolean or a number.
\<close>

fun py_in :: "string \<Rightarrow> json \<Rightarrow> exn + bool" where
  "py_in k (JObj kvs) = Inr (map_of kvs k \<noteq> None)"
| "py_in k (JArr xs) = Inr (JStr k \<in> set xs)"
| "py_in k (JStr s) = Inr (substring k s)"
| "py_in k v = Inl (PyExn TypeError ''argument is not iterable'')"

text \<open>\<^verbatim>\<open>data[k]\<close> with a string key: only a dict can be indexed by a string.\<close>

fun getitem :: "json \<Rightarrow> string \<Rightarrow> exn + json" where
  "getitem (JObj kvs) k = (case map_of kvs k of None \<Rightarrow> Inl (PyExn KeyError k) | Some v \<Rightarrow> Inr v)"
| "getitem v k = Inl (PyExn TypeError ''indices must be integers'')"

text \<open>\<^verbatim>\<open>d.get(k, default)\<close>: only a dict has the method.\<close>

fun dict_get :: "json \<Rightarrow> string \<Rightarrow> json \<Rightarrow> exn + json" where
  "dict_get (JObj kvs) k dflt = Inr (case map_of kvs k of None \<Rightarrow> dflt | Some v \<Rightarrow> v)"
| "dict_get v k dflt = Inl (PyExn AttributeError ''object has no attribute get'')"

text \<open>
  The items that \<^verbatim>\<open>for item in v[:15]\<close> visits: the first 15 elements of a list, the
  first 15 characters of a string; no other JSON value can be sliced.
\<close>

fun sliced_items :: "json \<Rightarrow> exn + json list" where
  "sliced_items (JArr xs) = Inr (take 15 xs)"
| "sliced_items (JStr s) = Inr (map (\<lambda>c. JStr [c]) (take 15 s))"
| "sliced_items v = Inl (PyExn TypeError ''object is not subscriptable'')"

subsection \<open>Validation by the pydantic models\<close>

text \<open>
  A field declared \<^verbatim>\<open>str\<close> accepts a string and nothing else that JSON decoding
  produces; \<^verbatim>\<open>Optional[str]\<close> also accepts \<^verbatim>\<open>None\<close> (pydantic 2).
\<close>

fun validate_str :: "json \<Rightarrow> exn + string" where
  "validate_str (JStr s) = Inr s"
| "validate_str v = Inl (PyExn ValidationError ''Input should be a valid string'')"

fun validate_opt_str :: "json \<Rightarrow> exn + string option" where
  "validate_opt_str (JStr s) = Inr (Some s)"
| "validate_opt_str JNull = Inr None"
| "validate_opt_str v = Inl (PyExn ValidationError ''Input should be a valid string'')"

text \<open>
  \<^verbatim>\<open>except C\<close> catches the instances of \<open>C\<close> and of its subclasses:
  \<^verbatim>\<open>json.JSONDecodeError\<close> and pydantic's \<^verbatim>\<open>ValidationError\<close> are subclasses of
  \<^verbatim>\<open>ValueError\<close>.
\<close>

fun isinstance :: "exn \<Rightarrow> exn_class \<Rightarrow> bool" where
  "isinstance (PyExn c a) k =
     (if c = k then True else k = ValueError \<and> (c = JSONDecodeError \<or> c = ValidationError))"
| "isinstance (HTTPException st d) k = False"

definition NewsArticle_init :: "json \<Rightarrow> json \<Rightarrow> json \<Rightarrow> json \<Rightarrow> json \<Rightarrow> exn + NewsArticle" where
  "NewsArticle_init t s sn d u =
     ebind (validate_str t) (\<lambda>t'.
     ebind (validate_str s) (\<lambda>s'.
     ebind (validate_str sn) (\<lambda>sn'.
     ebind (validate_str d) (\<lambda>d'.
     ebind (validate_opt_str u) (\<lambda>u'.
       Inr \<lparr>title = t', source = s', snippet = sn', date = d', url = u'\<rparr>)))))"

definition NewsResponse_init :: "NewsArticle list \<Rightarrow> json \<Rightarrow> json \<Rightarrow> exn + NewsResponse" where
  "NewsResponse_init as s h =
     ebind (validate_str s) (\<lambda>s'.
     ebind (validate_str h) (\<lambda>h'.
       Inr \<lparr>articles = as, summary = s', headline = h'\<rparr>))"

subsection \<open>The handler \<^verbatim>\<open>fetch_news\<close> (lines 51--148)\<close>

text \<open>Lines 97--103: one result entry becomes one article.\<close>

definition make_article :: "NewsRequest \<Rightarrow> json \<Rightarrow> exn + NewsArticle" where
  "make_article request item =
     ebind (dict_get item ''title'' (JStr '''')) (\<lambda>t.
     ebind (dict_get item ''source'' (JStr '''')) (\<lambda>s.
     ebind (dict_get item ''snippet'' (JStr '''')) (\<lambda>sn.
     ebind (dict_get item ''date'' (JStr (NewsRequest.date request))) (\<lambda>d.
     ebind (dict_get item ''link'' (JStr '''')) (\<lambda>u.
       NewsArticle_init t s sn d u)))))"

text \<open>Lines 95--104: the loop appends to \<^verbatim>\<open>articles\<close> (here \<open>arts\<close>); the first exception
  ends it.\<close>

fun build_articles :: "NewsRequest \<Rightarrow> json list \<Rightarrow> NewsArticle list \<Rightarrow> exn + NewsArticle list" where
  "build_articles request [] arts = Inr arts"
| "build_articles request (item # items) arts =
     (case make_article request item of
        Inl e \<Rightarrow> Inl e
      | Inr a \<Rightarrow> build_articles request items (arts @ [a]))"

text \<open>
  Lines 83--104, on the decoded search response: raise, return early (\<open>Inr (Inl r)\<close>), or
  go on with the articles (\<open>Inr (Inr as)\<close>).
\<close>

definition process_results :: "NewsRequest \<Rightarrow> json \<Rightarrow> exn + (NewsResponse + NewsArticle list)" where
  "process_results request data =
     ebind (py_in ''error'' data) (\<lambda>has_error.
       if has_error
       then ebind (getitem data ''error'') (\<lambda>detail. Inl (HTTPException 400 detail))
       else ebind (py_in ''news_results'' data) (\<lambda>has_results.
         if \<not> has_results
         then Inr (Inl \<lparr>articles = [],
                        summary = ''No news found for the specified date and topics.'',
                        headline = ''No News Available''\<rparr>)
         else ebind (dict_get data ''news_results'' (JArr [])) (\<lambda>results.
              ebind (sliced_items results) (\<lambda>items.
              ebind (build_articles request items []) (\<lambda>arts.
                Inr (Inr arts))))))"

text \<open>Lines 109--128: the prompt, character by character.\<close>

definition nl :: char where
  "nl = CHR 0x0A"

definition dq :: char where
  "dq = CHR 0x22"

definition article_block :: "NewsArticle \<Rightarrow> string" where
  "article_block article =
     ''Title: '' @ title article @ [nl] @ ''Source: '' @ source article @ [nl]
     @ ''Snippet: '' @ snippet article"

definition articles_text :: "NewsArticle list \<Rightarrow> string" where
  "articles_text arts = join [nl, nl] (map article_block arts)"

definition prompt :: "NewsRequest \<Rightarrow> NewsArticle list \<Rightarrow> string" where
  "prompt request arts =
     [nl]
     @ ''        Based on the following Indian news articles from  '' @ NewsRequest.date request
     @ '' about '' @ join '', '' (topics request) @ '', '' @ [nl]
     @ ''        generate:'' @ [nl]
     @ ''        1. A compelling main headline in the style of a vintage Indian newspaper (max 10 words)'' @ [nl]
     @ ''        2. A concise summary of the key developments in India (100-150 words)'' @ [nl]
     @ ''        '' @ [nl]
     @ ''        News articles:'' @ [nl]
     @ ''        '' @ articles_text arts @ [nl]
     @ ''        '' @ [nl]
     @ ''        Respond in JSON format:'' @ [nl]
     @ ''        {'' @ [nl]
     @ ''            '' @ [dq] @ ''headline'' @ [dq] @ '': '' @ [dq] @ ''Your headline here'' @ [dq] @ '','' @ [nl]
     @ ''            '' @ [dq] @ ''summary'' @ [dq] @ '': '' @ [dq] @ ''Your summary here'' @ [dq] @ [nl]
     @ ''        }'' @ [nl]
     @ ''        ''"

text \<open>
  Lines 131--139: the inner \<^verbatim>\<open>try\<close>. \<open>response\<close> is the outcome of reading
  \<^verbatim>\<open>response.text\<close>. The result is the pair of \<^verbatim>\<open>headline\<close> and \<^verbatim>\<open>summary\<close>; an
  exception that is neither a \<^verbatim>\<open>JSONDecodeError\<close> nor an \<^verbatim>\<open>AttributeError\<close> passes
  through.
\<close>

definition parse_reply :: "world \<Rightarrow> exn + string \<Rightarrow> exn + (json \<times> json)" where
  "parse_reply w response =
     (case ebind response (\<lambda>text.
           ebind (json_loads w text) (\<lambda>gemini_response.
           ebind (dict_get gemini_response ''headline'' (JStr ''News of the Day'')) (\<lambda>h.
           ebind (dict_get gemini_response ''summary'' (JStr ''Summary not available.'')) (\<lambda>s.
             Inr (h, s))))) of
        Inl e \<Rightarrow>
          if isinstance e JSONDecodeError \<or> isinstance e AttributeError
          then Inr (JStr ''News of the Day'', JStr ''Summary not available due to processing error.'')
          else Inl e
      | Inr hs \<Rightarrow> Inr hs)"

text \<open>Lines 107--145: the call to the model provider and the response built from it.\<close>

definition summarize :: "world \<Rightarrow> NewsRequest \<Rightarrow> NewsArticle list \<Rightarrow> (exn + NewsResponse) \<times> call list" where
  "summarize w request arts =
     (ebind (generate_content w ''gemini-1.5-pro'' (prompt request arts)) (\<lambda>response.
        ebind (parse_reply w response) (\<lambda>(h, s).
          NewsResponse_init arts s h)),
      [ModelCall ''gemini-1.5-pro'' (prompt request arts)])"

text \<open>Lines 72--79: the parameters of the search request.\<close>

definition search_url :: string where
  "search_url = ''https://serpapi.com/search''"

definition search_params :: "config \<Rightarrow> NewsRequest \<Rightarrow> (string \<times> json) list" where
  "search_params cfg request =
     [(''engine'', JStr ''google''),
      (''q'', JStr (join '' '' (topics request) @ '' '' @ NewsRequest.date request)),
      (''tbm'', JStr ''nws''),
      (''num'', JInt 15),
      (''api_key'', (case SERP_API_KEY cfg of None \<Rightarrow> JNull | Some k \<Rightarrow> JStr k))]"

text \<open>
  Lines 59--145: the body of the outer \<^verbatim>\<open>try\<close>. The \<^verbatim>\<open>HTTPException\<close> of line 64 is
  raised inside it, as the one of line 84 is (in \<open>process_results\<close>).
\<close>

definition fetch_news_body :: "config \<Rightarrow> world \<Rightarrow> NewsRequest \<Rightarrow> (exn + NewsResponse) \<times> call list" where
  "fetch_news_body cfg w request =
     (case strptime_ymd (NewsRequest.date request) of
        Inl e \<Rightarrow>
          (Inl (if isinstance e ValueError
                then HTTPException 400 (JStr ''Invalid date format. Use YYYY-MM-DD'')
                else e), [])
      | Inr parsed \<Rightarrow>
          (case ebind (client_get w search_url (search_params cfg request)) (\<lambda>response.
                ebind response (\<lambda>data. process_results request data)) of
             Inl e \<Rightarrow> (Inl e, [SearchCall search_url (search_params cfg request)])
           | Inr (Inl early) \<Rightarrow> (Inr early, [SearchCall search_url (search_params cfg request)])
           | Inr (Inr arts) \<Rightarrow>
               (case summarize w request arts of
                  (result, calls) \<Rightarrow>
                    (result, SearchCall search_url (search_params cfg request) # calls))))"

text \<open>
  Lines 53--56 and 147--148: the two configuration checks, then the body under
  \<^verbatim>\<open>except Exception\<close>, which catches every exception of the body, the
  \<^verbatim>\<open>HTTPException\<close>s included, and raises status 500 in its place.
\<close>

definition fetch_news :: "config \<Rightarrow> world \<Rightarrow> NewsRequest \<Rightarrow> (exn + NewsResponse) \<times> call list" where
  "fetch_news cfg w request =
     (if \<not> truthy (SERP_API_KEY cfg)
      then (Inl (HTTPException 500 (JStr ''SERP API key not configured'')), [])
      else if \<not> truthy (GOOGLE_API_KEY cfg)
      then (Inl (HTTPException 500 (JStr ''Google API key not configured'')), [])
      else (case fetch_news_body cfg w request of
              (Inl e, calls) \<Rightarrow>
                (Inl (HTTPException 500 (JStr (''Error fetching news: '' @ exn_str w e))), calls)
            | (Inr r, calls) \<Rightarrow> (Inr r, calls)))"

subsection \<open>Fixtures: a configuration, a request and stub providers\<close>

text \<open>
  The stubs stand in for the two providers in the examples. \<open>stub_json_loads\<close> is a
  test double of \<^verbatim>\<open>json.loads\<close> that decodes the two JSON texts the examples use and
  rejects any other text; \<open>stub_exn_str\<close> renders an exception by its arguments.
\<close>

definition example_config :: config where
  "example_config = \<lparr>SERP_API_KEY = Some ''serp-key'', GOOGLE_API_KEY = Some ''google-key''\<rparr>"

definition example_request :: NewsRequest where
  "example_request = \<lparr>NewsRequest.date = ''2024-01-15'', topics = [''elections'', ''economy'']\<rparr>"

definition example_entries :: "json list" where
  "example_entries =
     [JObj [(''title'', JStr ''Markets rally ahead of polls''),
            (''source'', JStr ''The Hindu''),
            (''snippet'', JStr ''Sensex gains as campaigning peaks.''),
            (''date'', JStr ''Jan 15, 2024''),
            (''link'', JStr ''https://example.com/markets'')],
      JObj [(''title'', JStr ''Voters weigh inflation'')]]"

definition example_articles :: "NewsArticle list" where
  "example_articles =
     [\<lparr>title = ''Markets rally ahead of polls'', source = ''The Hindu'',
       snippet = ''Sensex gains as campaigning peaks.'', date = ''Jan 15, 2024'',
       url = Some ''https://example.com/markets''\<rparr>,
      \<lparr>title = ''Voters weigh inflation'', source = '''', snippet = '''',
       date = ''2024-01-15'', url = Some ''''\<rparr>]"

definition reply_full :: string where
  "reply_full =
     ''{'' @ [dq] @ ''headline'' @ [dq] @ '': '' @ [dq] @ ''Economy Sways Vote'' @ [dq] @ '', ''
     @ [dq] @ ''summary'' @ [dq] @ '': '' @ [dq] @ ''...'' @ [dq] @ ''}''"

definition reply_headline_only :: string where
  "reply_headline_only =
     ''{'' @ [dq] @ ''headline'' @ [dq] @ '': '' @ [dq] @ ''Economy Sways Vote'' @ [dq] @ ''}''"

definition stub_json_loads :: "string \<Rightarrow> exn + json" where
  "stub_json_loads s =
     (if s = reply_full
      then Inr (JObj [(''headline'', JStr ''Economy Sways Vote''), (''summary'', JStr ''...'')])
      else if s = reply_headline_only
      then Inr (JObj [(''headline'', JStr ''Economy Sways Vote'')])
      else Inl (PyExn JSONDecodeError ''Expecting value''))"

definition stub_exn_str :: "exn \<Rightarrow> string" where
  "stub_exn_str e = (case e of HTTPException st d \<Rightarrow> [] | PyExn c a \<Rightarrow> a)"

definition stub_world :: "exn + json \<Rightarrow> exn + string \<Rightarrow> world" where
  "stub_world search reply =
     \<lparr>client_get = (\<lambda>u params. Inr search),
      generate_content = (\<lambda>model p. Inr reply),
      json_loads = stub_json_loads,
      exn_str = stub_exn_str\<rparr>"

text \<open>
  The value of a field of a result entry or of the model's reply: the field when the
  object has it, the default otherwise.
\<close>

definition field_or :: "(string \<times> json) list \<Rightarrow> string \<Rightarrow> string \<Rightarrow> json" where
  "field_or obj k dflt = (case map_of obj k of None \<Rightarrow> JStr dflt | Some v \<Rightarrow> v)"

text \<open>A search response with 16 entries, and the response the handler builds from it.\<close>

definition many_entries :: "json list" where
  "many_entries = replicate 16 (JObj [(''title'', JStr ''t'')])"

definition many_response :: NewsResponse where
  "many_response =
     \<lparr>articles = replicate 15
        \<lparr>title = ''t'', source = '''', snippet = '''', date = ''2024-01-15'', url = Some ''''\<rparr>,
      summary = ''...'', headline = ''Economy Sways Vote''\<rparr>"

section \<open>Properties of the handler\<close>

subsection \<open>Auxiliary facts\<close>

lemmas strptime_defs = strptime_ymd_def regex_ymd_def match_Y_def match_m_def match_d_def
  match_two_def match_one_def match_lit_def digit_def digit19_def digit_val_def
  days_in_month_def is_leap_def

lemma strptime_ymd_raises_ValueError:
  "strptime_ymd s = Inl e \<Longrightarrow> isinstance e ValueError"
  by (auto simp: strptime_ymd_def split: list.splits prod.splits if_splits)

lemma ebind_Inr: "ebind m f = Inr y \<Longrightarrow> \<exists>x. m = Inr x \<and> f x = Inr y"
  by (cases m) (simp_all add: ebind_def)

lemma validate_str_Inr: "validate_str v = Inr s \<Longrightarrow> v = JStr s"
  by (cases v) simp_all

lemma dict_get_Inr:
  "dict_get item k d = Inr v \<Longrightarrow>
     \<exists>obj. item = JObj obj \<and> v = (case map_of obj k of None \<Rightarrow> d | Some v \<Rightarrow> v)"
  by (cases item) auto

lemma NewsArticle_init_Inr:
  "NewsArticle_init t s sn d u = Inr a \<Longrightarrow>
     t = JStr (title a) \<and> s = JStr (source a) \<and> sn = JStr (snippet a)
     \<and> d = JStr (NewsArticle.date a)"
  unfolding NewsArticle_init_def
  by (auto dest!: ebind_Inr validate_str_Inr)

lemma NewsResponse_init_Inr:
  "NewsResponse_init arts s h = Inr r \<Longrightarrow>
     articles r = arts \<and> s = JStr (summary r) \<and> h = JStr (headline r)"
  unfolding NewsResponse_init_def
  by (auto dest!: ebind_Inr validate_str_Inr)

text \<open>An article that was built came from an object, field by field.\<close>

lemma make_article_Inr:
  assumes "make_article request item = Inr a"
  shows "\<exists>obj. item = JObj obj
           \<and> JStr (title a) = field_or obj ''title'' ''''
           \<and> JStr (source a) = field_or obj ''source'' ''''
           \<and> JStr (snippet a) = field_or obj ''snippet'' ''''
           \<and> JStr (NewsArticle.date a) = field_or obj ''date'' (NewsRequest.date request)"
proof -
  from assms obtain t s sn d u where
    g: "dict_get item ''title'' (JStr '''') = Inr t"
       "dict_get item ''source'' (JStr '''') = Inr s"
       "dict_get item ''snippet'' (JStr '''') = Inr sn"
       "dict_get item ''date'' (JStr (NewsRequest.date request)) = Inr d"
    and i: "NewsArticle_init t s sn d u = Inr a"
    unfolding make_article_def by (auto dest!: ebind_Inr)
  from g(1) obtain obj where obj: "item = JObj obj" by (auto dest: dict_get_Inr)
  with g NewsArticle_init_Inr[OF i] show ?thesis
    by (auto simp: field_or_def)
qed

text \<open>The loop keeps what it had and adds one article per item, in order.\<close>

lemma build_articles_Inr:
  "build_articles request items acc = Inr arts \<Longrightarrow>
     \<exists>new. arts = acc @ new \<and> list_all2 (\<lambda>item a. make_article request item = Inr a) items new"
proof (induction items arbitrary: acc)
  case Nil
  then show ?case by simp
next
  case (Cons item items)
  then obtain a where a: "make_article request item = Inr a"
    and r: "build_articles request items (acc @ [a]) = Inr arts"
    by (auto split: sum.splits)
  from Cons.IH[OF r] obtain new where "arts = (acc @ [a]) @ new"
    "list_all2 (\<lambda>item a. make_article request item = Inr a) items new" by blast
  with a show ?case by (intro exI[of _ "a # new"]) simp
qed

lemma sliced_items_length: "sliced_items v = Inr items \<Longrightarrow> length items \<le> 15"
  by (cases v) auto

lemma process_results_articles:
  assumes "process_results request data = Inr (Inr arts)"
  shows "\<exists>results items. dict_get data ''news_results'' (JArr []) = Inr results
           \<and> sliced_items results = Inr items
           \<and> list_all2 (\<lambda>item a. make_article request item = Inr a) items arts"
  using assms unfolding process_results_def
  by (auto dest!: ebind_Inr build_articles_Inr split: if_splits)

lemma process_results_length:
  "process_results request data = Inr (Inr arts) \<Longrightarrow> length arts \<le> 15"
  by (auto dest!: process_results_articles sliced_items_length list_all2_lengthD)

lemma process_results_early:
  "process_results request data = Inr (Inl r) \<Longrightarrow> articles r = []"
  unfolding process_results_def
  by (auto dest!: ebind_Inr split: if_splits)

lemma summarize_articles:
  "fst (summarize w request arts) = Inr r \<Longrightarrow> articles r = arts"
  unfolding summarize_def
  by (auto dest!: ebind_Inr NewsResponse_init_Inr)


lemma parse_reply_object:
  assumes "json_loads w text = Inr (JObj reply)"
  shows "parse_reply w (Inr text) =
           Inr (field_or reply ''headline'' ''News of the Day'',
                field_or reply ''summary'' ''Summary not available.'')"
  using assms by (simp add: parse_reply_def ebind_def field_or_def)

subsection \<open>The shape of an invocation\<close>

text \<open>A date that \<^verbatim>\<open>strptime\<close> rejects: the 400 of line 64 leaves the handler as a 500.\<close>

lemma fetch_news_date_rejected:
  assumes "truthy (SERP_API_KEY cfg)" "truthy (GOOGLE_API_KEY cfg)"
    and "strptime_ymd (NewsRequest.date request) = Inl e"
  shows "fetch_news cfg w request =
           (Inl (HTTPException 500 (JStr (''Error fetching news: '' @
              exn_str w (HTTPException 400 (JStr ''Invalid date format. Use YYYY-MM-DD''))))), [])"
  using assms strptime_ymd_raises_ValueError[OF assms(3)]
  by (simp add: fetch_news_def fetch_news_body_def)

text \<open>Keys configured, date accepted, search response decoded: what follows.\<close>

lemma fetch_news_search_object:
  assumes "truthy (SERP_API_KEY cfg)" "truthy (GOOGLE_API_KEY cfg)"
    and "strptime_ymd (NewsRequest.date request) = Inr ymd"
    and "client_get w search_url (search_params cfg request) = Inr (Inr data)"
  shows "fetch_news cfg w request =
     (case process_results request data of
        Inl e \<Rightarrow> (Inl (HTTPException 500 (JStr (''Error fetching news: '' @ exn_str w e))),
                    [SearchCall search_url (search_params cfg request)])
      | Inr (Inl early) \<Rightarrow> (Inr early, [SearchCall search_url (search_params cfg request)])
      | Inr (Inr arts) \<Rightarrow>
          (case fst (summarize w request arts) of
             Inl e \<Rightarrow> Inl (HTTPException 500 (JStr (''Error fetching news: '' @ exn_str w e)))
           | Inr r \<Rightarrow> Inr r,
           [SearchCall search_url (search_params cfg request),
            ModelCall ''gemini-1.5-pro'' (prompt request arts)]))"
  using assms
  by (simp add: fetch_news_def fetch_news_body_def ebind_def summarize_def
        split: sum.splits prod.splits)

text \<open>An invocation that called the model provider got its articles from the search.\<close>

lemma fetch_news_with_model_call:
  assumes "ModelCall m p \<in> set (snd (fetch_news cfg w request))"
  shows "\<exists>data arts.
           client_get w search_url (search_params cfg request) = Inr (Inr data)
         \<and> process_results request data = Inr (Inr arts)
         \<and> m = ''gemini-1.5-pro'' \<and> p = prompt request arts
         \<and> fetch_news cfg w request =
             (case fst (summarize w request arts) of
                Inl e \<Rightarrow> Inl (HTTPException 500 (JStr (''Error fetching news: '' @ exn_str w e)))
              | Inr r \<Rightarrow> Inr r,
              [SearchCall search_url (search_params cfg request), ModelCall m p])"
  using assms
  by (auto simp: fetch_news_def fetch_news_body_def ebind_def summarize_def
           split: if_splits sum.splits prod.splits)

text \<open>A successful invocation returned early or summarized its articles.\<close>

lemma fetch_news_success:
  assumes "fst (fetch_news cfg w request) = Inr r"
  shows "\<exists>data. client_get w search_url (search_params cfg request) = Inr (Inr data)
           \<and> (process_results request data = Inr (Inl r)
              \<or> (\<exists>arts. process_results request data = Inr (Inr arts)
                    \<and> fst (summarize w request arts) = Inr r))"
  using assms
  by (auto simp: fetch_news_def fetch_news_body_def ebind_def
           split: if_splits sum.splits prod.splits)

subsection \<open>The fixtures evaluated\<close>

lemma example_date_ok: "strptime_ymd (NewsRequest.date example_request) = Inr (2024, 1, 15)"
  by (simp add: example_request_def strptime_defs)

lemma example_keys_ok:
  "truthy (SERP_API_KEY example_config)" "truthy (GOOGLE_API_KEY example_config)"
  by (simp_all add: example_config_def truthy_def)

lemma stub_world_sel [simp]:
  "client_get (stub_world search reply) u params = Inr search"
  "generate_content (stub_world search reply) model p = Inr reply"
  "json_loads (stub_world search reply) = stub_json_loads"
  "exn_str (stub_world search reply) = stub_exn_str"
  by (simp_all add: stub_world_def)

lemma stub_json_loads_full:
  "stub_json_loads reply_full =
     Inr (JObj [(''headline'', JStr ''Economy Sways Vote''), (''summary'', JStr ''...'')])"
  by (simp add: stub_json_loads_def)

lemma stub_json_loads_headline_only:
  "stub_json_loads reply_headline_only = Inr (JObj [(''headline'', JStr ''Economy Sways Vote'')])"
  by (simp add: stub_json_loads_def reply_full_def reply_headline_only_def)


lemma example_build_articles:
  "build_articles example_request example_entries [] = Inr example_articles"
  by (simp add: example_entries_def example_articles_def example_request_def make_article_def
        NewsArticle_init_def ebind_def)

lemma example_process_results:
  "process_results example_request (JObj [(''news_results'', JArr example_entries)]) =
     Inr (Inr example_articles)"
proof -
  have "take 15 example_entries = example_entries" by (simp add: example_entries_def)
  then show ?thesis
    by (simp add: process_results_def ebind_def example_build_articles)
qed

lemma example_fetch_news:
  "fetch_news example_config
      (stub_world (Inr (JObj [(''news_results'', JArr example_entries)])) reply) example_request =
     (case ebind (parse_reply
                    (stub_world (Inr (JObj [(''news_results'', JArr example_entries)])) reply) reply)
             (\<lambda>(h, s). NewsResponse_init example_articles s h) of
        Inl e \<Rightarrow> Inl (HTTPException 500 (JStr (''Error fetching news: '' @ stub_exn_str e)))
      | Inr r \<Rightarrow> Inr r,
      [SearchCall search_url (search_params example_config example_request),
       ModelCall ''gemini-1.5-pro'' (prompt example_request example_articles)])"
  by (simp add: fetch_news_search_object[OF example_keys_ok example_date_ok]
        example_process_results summarize_def ebind_def cong: sum.case_cong)

lemma many_build_articles:
  "build_articles example_request (replicate n (JObj [(''title'', JStr ''t'')])) acc =
     Inr (acc @ replicate n
       \<lparr>title = ''t'', source = '''', snippet = '''', date = ''2024-01-15'', url = Some ''''\<rparr>)"
proof (induction n arbitrary: acc)
  case 0
  then show ?case by simp
next
  case (Suc n)
  have "make_article example_request (JObj [(''title'', JStr ''t'')]) =
          Inr \<lparr>title = ''t'', source = '''', snippet = '''', date = ''2024-01-15'', url = Some ''''\<rparr>"
    by (simp add: make_article_def NewsArticle_init_def ebind_def example_request_def)
  with Suc show ?case by (simp add: replicate_app_Cons_same)
qed

lemma many_fetch_news:
  "fetch_news example_config
      (stub_world (Inr (JObj [(''news_results'', JArr many_entries)])) (Inr reply_full))
      example_request =
     (Inr many_response,
      [SearchCall search_url (search_params example_config example_request),
       ModelCall ''gemini-1.5-pro'' (prompt example_request (articles many_response))])"
proof -
  have "process_results example_request (JObj [(''news_results'', JArr many_entries)]) =
          Inr (Inr (articles many_response))"
    by (simp add: process_results_def ebind_def many_entries_def many_response_def
          many_build_articles)
  then show ?thesis
    by (simp add: fetch_news_search_object[OF example_keys_ok example_date_ok] summarize_def
          ebind_def parse_reply_def stub_json_loads_full NewsResponse_init_def many_response_def)
qed

section \<open>The claims\<close>

text \<open>
  C1 (the code departs from the claim). The claim: a request whose date is not in
  the YYYY-MM-DD format, with both keys configured, fails with status 400
  (InvalidInput) and reaches no provider. The code: the \<^verbatim>\<open>HTTPException\<close> with status
  400 of line 64 is raised inside the outer \<^verbatim>\<open>try\<close>, is caught by
  \<^verbatim>\<open>except Exception\<close> of line 147 and is replaced by one with status 500. For the
  dates "2024/01/01" and "not-a-date" the handler answers 500, with no outbound call.
\<close>

theorem malformed_date_yields_500:
  "fetch_news example_config w \<lparr>NewsRequest.date = ''2024/01/01'', topics = ts\<rparr> =
     (Inl (HTTPException 500 (JStr (''Error fetching news: '' @
        exn_str w (HTTPException 400 (JStr ''Invalid date format. Use YYYY-MM-DD''))))), [])
   \<and> fetch_news example_config w \<lparr>NewsRequest.date = ''not-a-date'', topics = ts\<rparr> =
     (Inl (HTTPException 500 (JStr (''Error fetching news: '' @
        exn_str w (HTTPException 400 (JStr ''Invalid date format. Use YYYY-MM-DD''))))), [])"
proof -
  have "strptime_ymd ''2024/01/01'' = Inl (PyExn ValueError ''does not match format'')"
    by (simp add: strptime_defs)
  moreover have "strptime_ymd ''not-a-date'' = Inl (PyExn ValueError ''does not match format'')"
    by (simp add: strptime_defs)
  ultimately show ?thesis
    by (simp add: fetch_news_date_rejected[OF example_keys_ok])
qed

text \<open>
  C2 (the code departs from the claim). The claim: when the search provider's
  response has an "error" field, the handler fails with status 400 and the provider's
  message as detail. The code: the \<^verbatim>\<open>HTTPException\<close> with status 400 of line 84 is
  raised inside the outer \<^verbatim>\<open>try\<close> and leaves the handler as a status 500 whose detail
  is "Error fetching news: " followed by \<^verbatim>\<open>str\<close> of the caught exception.
\<close>

theorem provider_error_yields_500:
  "fetch_news example_config
      (w\<lparr>client_get := \<lambda>u params. Inr (Inr (JObj [(''error'', JStr ''Invalid API key.'')]))\<rparr>)
      example_request =
     (Inl (HTTPException 500 (JStr (''Error fetching news: '' @
        exn_str w (HTTPException 400 (JStr ''Invalid API key.''))))),
      [SearchCall search_url (search_params example_config example_request)])"
proof -
  have "process_results example_request (JObj [(''error'', JStr ''Invalid API key.'')]) =
          Inl (HTTPException 400 (JStr ''Invalid API key.''))"
    by (simp add: process_results_def ebind_def)
  then show ?thesis
    by (simp add: fetch_news_search_object[OF example_keys_ok example_date_ok])
qed

text \<open>
  C3. When the search provider's response is a JSON object with neither an "error"
  nor a "news_results" key, the handler succeeds with no articles, the summary
  "No news found for the specified date and topics." and the headline
  "No News Available"; the search call is the only outbound call, so the model
  provider is not called.
\<close>

theorem no_results_key_short_circuit:
  assumes "truthy (SERP_API_KEY cfg)" "truthy (GOOGLE_API_KEY cfg)"
    and "strptime_ymd (NewsRequest.date request) = Inr ymd"
    and "client_get w search_url (search_params cfg request) = Inr (Inr (JObj kvs))"
    and "map_of kvs ''error'' = None"
    and "map_of kvs ''news_results'' = None"
  shows "fetch_news cfg w request =
     (Inr \<lparr>articles = [], summary = ''No news found for the specified date and topics.'',
            headline = ''No News Available''\<rparr>,
      [SearchCall search_url (search_params cfg request)])"
  using assms(5,6)
  by (simp add: fetch_news_search_object[OF assms(1-4)] process_results_def ebind_def)

theorem no_results_key_short_circuit_witness:
  "fetch_news example_config
      (stub_world (Inr (JObj [(''search_metadata'', JObj [(''status'', JStr ''Success'')])]))
         (Inr reply_full))
      example_request =
     (Inr \<lparr>articles = [], summary = ''No news found for the specified date and topics.'',
            headline = ''No News Available''\<rparr>,
      [SearchCall search_url (search_params example_config example_request)])"
  using no_results_key_short_circuit[OF example_keys_ok example_date_ok,
      of "stub_world (Inr (JObj [(''search_metadata'', JObj [(''status'', JStr ''Success'')])]))
            (Inr reply_full)"
         "[(''search_metadata'', JObj [(''status'', JStr ''Success'')])]"]
  by simp




text \<open>
  C5. A response that the handler returns has at most 15 articles, whatever the
  search provider sent.
\<close>

theorem articles_at_most_15:
  assumes "fst (fetch_news cfg w request) = Inr r"
  shows "length (articles r) \<le> 15"
  using fetch_news_success[OF assms]
  by (auto dest: process_results_early process_results_length summarize_articles)

theorem articles_at_most_15_witness:
  "length many_entries = 16
   \<and> fst (fetch_news example_config
        (stub_world (Inr (JObj [(''news_results'', JArr many_entries)])) (Inr reply_full))
        example_request) = Inr many_response
   \<and> length (articles many_response) \<le> 15"
proof -
  have f: "fst (fetch_news example_config
        (stub_world (Inr (JObj [(''news_results'', JArr many_entries)])) (Inr reply_full))
        example_request) = Inr many_response"
    by (simp add: many_fetch_news)
  have "length many_entries = 16" by (simp add: many_entries_def)
  with f articles_at_most_15[OF f] show ?thesis by simp
qed

text \<open>
  C6. When the search response is an object whose "news_results" is an array and the
  handler returns a response, the articles are the first 15 entries in the provider's
  order: as many articles as \<open>min 15\<close> of the number of entries, and article \<open>i\<close> has
  the title, source and snippet of entry \<open>i\<close> when the entry has the field and the
  empty string when not, and the date of entry \<open>i\<close> when the entry has one and the
  request's date when not.
\<close>

theorem articles_mapped_in_order:
  assumes "client_get w search_url (search_params cfg request) = Inr (Inr (JObj kvs))"
    and "map_of kvs ''news_results'' = Some (JArr entries)"
    and "fst (fetch_news cfg w request) = Inr r"
  shows "length (articles r) = min 15 (length entries)
       \<and> (\<forall>i < length (articles r). \<exists>obj. entries ! i = JObj obj
            \<and> JStr (title (articles r ! i)) = field_or obj ''title'' ''''
            \<and> JStr (source (articles r ! i)) = field_or obj ''source'' ''''
            \<and> JStr (snippet (articles r ! i)) = field_or obj ''snippet'' ''''
            \<and> JStr (NewsArticle.date (articles r ! i)) =
                field_or obj ''date'' (NewsRequest.date request))"
proof -
  from fetch_news_success[OF assms(3)] assms(1)
  consider "process_results request (JObj kvs) = Inr (Inl r)"
    | arts where "process_results request (JObj kvs) = Inr (Inr arts)"
        "fst (summarize w request arts) = Inr r"
    by auto
  then show ?thesis
  proof cases
    case 1
    with assms(2) show ?thesis
      by (auto simp: process_results_def ebind_def split: if_splits sum.splits)
  next
    case 2
    from process_results_articles[OF 2(1)] assms(2)
    have l: "list_all2 (\<lambda>item a. make_article request item = Inr a) (take 15 entries) arts"
      by auto
    have a: "articles r = arts" using 2(2) by (rule summarize_articles)
    from l have len: "length arts = min 15 (length entries)"
      by (auto dest: list_all2_lengthD)
    have "\<exists>obj. entries ! i = JObj obj
            \<and> JStr (title (arts ! i)) = field_or obj ''title'' ''''
            \<and> JStr (source (arts ! i)) = field_or obj ''source'' ''''
            \<and> JStr (snippet (arts ! i)) = field_or obj ''snippet'' ''''
            \<and> JStr (NewsArticle.date (arts ! i)) =
                field_or obj ''date'' (NewsRequest.date request)"
      if "i < length arts" for i
    proof -
      from that len have i: "i < 15" "i < length entries" by auto
      from l that have "make_article request (take 15 entries ! i) = Inr (arts ! i)"
        by (auto dest: list_all2_nthD2)
      with i have "make_article request (entries ! i) = Inr (arts ! i)" by simp
      from make_article_Inr[OF this] show ?thesis .
    qed
    with a len show ?thesis by simp
  qed
qed

theorem articles_mapped_in_order_witness:
  "fst (fetch_news example_config
      (stub_world (Inr (JObj [(''news_results'', JArr example_entries)])) (Inr reply_full))
      example_request) =
     Inr \<lparr>articles = example_articles, summary = ''...'', headline = ''Economy Sways Vote''\<rparr>
   \<and> length example_articles = min 15 (length example_entries)
   \<and> (\<exists>obj. example_entries ! 1 = JObj obj
        \<and> JStr (title (example_articles ! 1)) = field_or obj ''title'' ''''
        \<and> JStr (source (example_articles ! 1)) = field_or obj ''source'' ''''
        \<and> JStr (snippet (example_articles ! 1)) = field_or obj ''snippet'' ''''
        \<and> JStr (NewsArticle.date (example_articles ! 1)) = field_or obj ''date'' ''2024-01-15'')
   \<and> source (example_articles ! 1) = ''''
   \<and> NewsArticle.date (example_articles ! 1) = ''2024-01-15''"
proof -
  let ?w = "stub_world (Inr (JObj [(''news_results'', JArr example_entries)])) (Inr reply_full)"
  let ?r = "\<lparr>articles = example_articles, summary = ''...'', headline = ''Economy Sways Vote''\<rparr>"
  have f: "fst (fetch_news example_config ?w example_request) = Inr ?r"
    by (simp add: example_fetch_news parse_reply_def ebind_def stub_json_loads_full
          NewsResponse_init_def)
  have "length (articles ?r) = min 15 (length example_entries)
       \<and> (\<forall>i < length (articles ?r). \<exists>obj. example_entries ! i = JObj obj
            \<and> JStr (title (articles ?r ! i)) = field_or obj ''title'' ''''
            \<and> JStr (source (articles ?r ! i)) = field_or obj ''source'' ''''
            \<and> JStr (snippet (articles ?r ! i)) = field_or obj ''snippet'' ''''
            \<and> JStr (NewsArticle.date (articles ?r ! i)) =
                field_or obj ''date'' (NewsRequest.date example_request))"
    by (rule articles_mapped_in_order[of ?w example_config example_request
          "[(''news_results'', JArr example_entries)]" example_entries ?r])
       (simp_all add: f)
  then have len: "length example_articles = min 15 (length example_entries)"
    and each: "\<And>i. i < length example_articles \<Longrightarrow> \<exists>obj. example_entries ! i = JObj obj
            \<and> JStr (title (example_articles ! i)) = field_or obj ''title'' ''''
            \<and> JStr (source (example_articles ! i)) = field_or obj ''source'' ''''
            \<and> JStr (snippet (example_articles ! i)) = field_or obj ''snippet'' ''''
            \<and> JStr (NewsArticle.date (example_articles ! i)) =
                field_or obj ''date'' (NewsRequest.date example_request)"
    by simp_all
  have "(1::nat) < length example_articles" by (simp add: example_articles_def)
  from each[OF this] have second: "\<exists>obj. example_entries ! 1 = JObj obj
        \<and> JStr (title (example_articles ! 1)) = field_or obj ''title'' ''''
        \<and> JStr (source (example_articles ! 1)) = field_or obj ''source'' ''''
        \<and> JStr (snippet (example_articles ! 1)) = field_or obj ''snippet'' ''''
        \<and> JStr (NewsArticle.date (example_articles ! 1)) = field_or obj ''date'' ''2024-01-15''"
    by (simp add: example_request_def)
  have "source (example_articles ! 1) = ''''"
    "NewsArticle.date (example_articles ! 1) = ''2024-01-15''"
    by (simp_all add: example_articles_def)
  with f len second show ?thesis by blast
qed

text \<open>
  C7. The end-to-end example: the request with date "2024-01-15" and topics
  "elections", "economy", a stub search provider returning two entries (the second
  with a title only) and a stub model provider whose reply decodes to the headline
  "Economy Sways Vote" and the summary "...". The handler returns exactly two
  articles, the fields copied or defaulted (empty source and snippet, the request's
  date and the empty link for the second), with that headline and summary, after one
  search call for "elections economy 2024-01-15" and one model call.
\<close>

theorem end_to_end_example:
  "fetch_news example_config
      (stub_world (Inr (JObj [(''news_results'', JArr example_entries)])) (Inr reply_full))
      example_request =
     (Inr \<lparr>articles =
             [\<lparr>title = ''Markets rally ahead of polls'', source = ''The Hindu'',
               snippet = ''Sensex gains as campaigning peaks.'', date = ''Jan 15, 2024'',
               url = Some ''https://example.com/markets''\<rparr>,
              \<lparr>title = ''Voters weigh inflation'', source = '''', snippet = '''',
               date = ''2024-01-15'', url = Some ''''\<rparr>],
            summary = ''...'', headline = ''Economy Sways Vote''\<rparr>,
      [SearchCall ''https://serpapi.com/search''
         [(''engine'', JStr ''google''), (''q'', JStr ''elections economy 2024-01-15''),
          (''tbm'', JStr ''nws''), (''num'', JInt 15), (''api_key'', JStr ''serp-key'')],
       ModelCall ''gemini-1.5-pro'' (prompt example_request example_articles)])"
  by (subst example_fetch_news)
    (simp add: parse_reply_def ebind_def stub_json_loads_full
        NewsResponse_init_def search_url_def search_params_def example_config_def
        example_request_def example_articles_def)

text \<open>
  C8. The module-level code yields a configuration for every environment (an absent
  variable is read as \<^verbatim>\<open>None\<close>, nothing is raised at start). When \<^verbatim>\<open>SERP_API_KEY\<close> or
  \<^verbatim>\<open>GOOGLE_API_KEY\<close> is absent, every request, whatever its date and whatever the
  providers would do, is answered with status 500 and a detail message naming the
  key, with no outbound call.
\<close>

theorem missing_key_yields_500:
  assumes "environ ''SERP_API_KEY'' = None \<or> environ ''GOOGLE_API_KEY'' = None"
  shows "fetch_news (module_init environ) w request =
           (Inl (HTTPException 500 (JStr
              (if \<not> truthy (environ ''SERP_API_KEY'') then ''SERP API key not configured''
               else ''Google API key not configured''))), [])"
  using assms by (auto simp: fetch_news_def module_init_def truthy_def)

theorem missing_key_yields_500_witness:
  "[''SERP_API_KEY'' \<mapsto> ''serp-key''] ''GOOGLE_API_KEY'' = None
   \<and> fetch_news (module_init [''SERP_API_KEY'' \<mapsto> ''serp-key''])
        (stub_world (Inr (JObj [(''news_results'', JArr example_entries)])) (Inr reply_full))
        \<lparr>NewsRequest.date = ''not-a-date'', topics = []\<rparr> =
       (Inl (HTTPException 500 (JStr ''Google API key not configured'')), [])"
  using missing_key_yields_500[of "[''SERP_API_KEY'' \<mapsto> ''serp-key'']"
      "stub_world (Inr (JObj [(''news_results'', JArr example_entries)])) (Inr reply_full)"
      "\<lparr>NewsRequest.date = ''not-a-date'', topics = []\<rparr>"]
  by (simp add: truthy_def)

text \<open>
  C9. When the search response is an object without "error" whose "news_results" is
  the empty array, the handler does not return the "No News Available" response: it
  calls the model provider, with the prompt built from no articles (the article text
  in it is empty), and when the reply decodes to an object with a string headline and
  a string summary, it returns no articles with that headline and that summary.
\<close>

theorem empty_results_still_summarized:
  assumes "truthy (SERP_API_KEY cfg)" "truthy (GOOGLE_API_KEY cfg)"
    and "strptime_ymd (NewsRequest.date request) = Inr ymd"
    and "client_get w search_url (search_params cfg request) = Inr (Inr (JObj kvs))"
    and "map_of kvs ''error'' = None"
    and "map_of kvs ''news_results'' = Some (JArr [])"
  shows "snd (fetch_news cfg w request) =
           [SearchCall search_url (search_params cfg request),
            ModelCall ''gemini-1.5-pro'' (prompt request [])]
       \<and> articles_text [] = []
       \<and> (\<forall>text reply h s.
            generate_content w ''gemini-1.5-pro'' (prompt request []) = Inr (Inr text)
            \<and> json_loads w text = Inr (JObj reply)
            \<and> map_of reply ''headline'' = Some (JStr h)
            \<and> map_of reply ''summary'' = Some (JStr s)
            \<longrightarrow> fst (fetch_news cfg w request) =
                  Inr \<lparr>articles = [], summary = s, headline = h\<rparr>)"
proof -
  have p: "process_results request (JObj kvs) = Inr (Inr [])"
    using assms(5,6) by (simp add: process_results_def ebind_def)
  show ?thesis
    by (auto simp: fetch_news_search_object[OF assms(1-4)] p articles_text_def summarize_def
          ebind_def parse_reply_def NewsResponse_init_def)
qed

theorem empty_results_still_summarized_witness:
  "snd (fetch_news example_config
          (stub_world (Inr (JObj [(''news_results'', JArr [])])) (Inr reply_full))
          example_request) =
     [SearchCall search_url (search_params example_config example_request),
      ModelCall ''gemini-1.5-pro'' (prompt example_request [])]
   \<and> fst (fetch_news example_config
          (stub_world (Inr (JObj [(''news_results'', JArr [])])) (Inr reply_full))
          example_request) =
     Inr \<lparr>articles = [], summary = ''...'', headline = ''Economy Sways Vote''\<rparr>"
proof -
  let ?w = "stub_world (Inr (JObj [(''news_results'', JArr [])])) (Inr reply_full)"
  have c: "client_get ?w search_url (search_params example_config example_request) =
             Inr (Inr (JObj [(''news_results'', JArr [])]))"
    by simp
  have e: "map_of [(''news_results'', JArr [])] ''error'' = None"
    and n: "map_of [(''news_results'', JArr [])] ''news_results'' = Some (JArr [])"
    by simp_all
  note t = empty_results_still_summarized[OF example_keys_ok example_date_ok c e n]
  from t have calls: "snd (fetch_news example_config ?w example_request) =
     [SearchCall search_url (search_params example_config example_request),
      ModelCall ''gemini-1.5-pro'' (prompt example_request [])]"
    by blast
  from t have "generate_content ?w ''gemini-1.5-pro'' (prompt example_request []) =
                 Inr (Inr reply_full)
       \<and> json_loads ?w reply_full =
           Inr (JObj [(''headline'', JStr ''Economy Sways Vote''), (''summary'', JStr ''...'')])
       \<and> map_of [(''headline'', JStr ''Economy Sways Vote''), (''summary'', JStr ''...'')]
            ''headline'' = Some (JStr ''Economy Sways Vote'')
       \<and> map_of [(''headline'', JStr ''Economy Sways Vote''), (''summary'', JStr ''...'')]
            ''summary'' = Some (JStr ''...'')
       \<longrightarrow> fst (fetch_news example_config ?w example_request) =
             Inr \<lparr>articles = [], summary = ''...'', headline = ''Economy Sways Vote''\<rparr>"
    by blast
  then have "fst (fetch_news example_config ?w example_request) =
             Inr \<lparr>articles = [], summary = ''...'', headline = ''Economy Sways Vote''\<rparr>"
    by (simp add: stub_json_loads_full)
  with calls show ?thesis by simp
qed

text \<open>
  C10. In an invocation that called the model provider, when the reply text decodes
  to a JSON object and the handler returns a response, the headline is the object's
  "headline" when it has one and "News of the Day" when not, and the summary is the
  object's "summary" when it has one and "Summary not available." when not; that
  default is not the literal of the parse-failure path,
  "Summary not available due to processing error.".
\<close>

theorem missing_reply_keys_default:
  assumes "ModelCall m p \<in> set (snd (fetch_news cfg w request))"
    and "generate_content w m p = Inr (Inr text)"
    and "json_loads w text = Inr (JObj reply)"
    and "fst (fetch_news cfg w request) = Inr r"
  shows "JStr (headline r) = field_or reply ''headline'' ''News of the Day''
       \<and> JStr (summary r) = field_or reply ''summary'' ''Summary not available.''
       \<and> ''Summary not available.'' \<noteq> ''Summary not available due to processing error.''"
proof -
  from fetch_news_with_model_call[OF assms(1)] obtain arts where
    m: "m = ''gemini-1.5-pro''" and p: "p = prompt request arts"
    and f: "fst (fetch_news cfg w request) =
             (case fst (summarize w request arts) of
                Inl e \<Rightarrow> Inl (HTTPException 500 (JStr (''Error fetching news: '' @ exn_str w e)))
              | Inr r \<Rightarrow> Inr r)"
    by auto
  from f assms(4) have "fst (summarize w request arts) = Inr r"
    by (simp split: sum.splits)
  with assms(2) m p have "NewsResponse_init arts
      (field_or reply ''summary'' ''Summary not available.'')
      (field_or reply ''headline'' ''News of the Day'') = Inr r"
    by (simp add: summarize_def ebind_def parse_reply_object[OF assms(3)])
  from NewsResponse_init_Inr[OF this] show ?thesis by simp
qed

theorem missing_reply_keys_default_witness:
  "fetch_news example_config
      (stub_world (Inr (JObj [(''news_results'', JArr example_entries)]))
         (Inr reply_headline_only))
      example_request =
     (Inr \<lparr>articles = example_articles, summary = ''Summary not available.'',
            headline = ''Economy Sways Vote''\<rparr>,
      [SearchCall search_url (search_params example_config example_request),
       ModelCall ''gemini-1.5-pro'' (prompt example_request example_articles)])
   \<and> stub_json_loads reply_headline_only = Inr (JObj [(''headline'', JStr ''Economy Sways Vote'')])
   \<and> JStr ''Summary not available.'' =
       field_or [(''headline'', JStr ''Economy Sways Vote'')] ''summary'' ''Summary not available.''"
proof -
  let ?w = "stub_world (Inr (JObj [(''news_results'', JArr example_entries)]))
              (Inr reply_headline_only)"
  let ?r = "\<lparr>articles = example_articles, summary = ''Summary not available.'',
             headline = ''Economy Sways Vote''\<rparr>"
  have f: "fetch_news example_config ?w example_request =
     (Inr ?r,
      [SearchCall search_url (search_params example_config example_request),
       ModelCall ''gemini-1.5-pro'' (prompt example_request example_articles)])"
    by (subst example_fetch_news)
      (simp add: parse_reply_def ebind_def stub_json_loads_headline_only NewsResponse_init_def)
  have "JStr (summary ?r) =
          field_or [(''headline'', JStr ''Economy Sways Vote'')] ''summary'' ''Summary not available.''"
    using missing_reply_keys_default[of "''gemini-1.5-pro''"
        "prompt example_request example_articles" example_config ?w example_request
        reply_headline_only "[(''headline'', JStr ''Economy Sways Vote'')]" ?r]
    by (simp add: f stub_json_loads_headline_only)
  with f show ?thesis by (simp add: stub_json_loads_headline_only)
qed

end
